theory Spec2Isabelle
  imports Complex_Main "HOL-Library.Word"
begin

unbundle bit_operations_syntax

section \<open>Cloud and cloud-shadow masking of Sentinel-2 rasters\<close>

text \<open>
  The notebook \<^verbatim>\<open>cloud-masking-sentinel2.ipynb\<close> defines four functions over
  Earth Engine images: \<^verbatim>\<open>rescale\<close>, \<^verbatim>\<open>sentinelCloudScore\<close>,
  \<^verbatim>\<open>ESAcloudMask\<close> and \<^verbatim>\<open>shadowMask\<close>. They are embedded here over
  a small raster algebra. Reflectance arithmetic, which the program does in binary floating
  point, is done in exact real arithmetic; pixels are addressed by integer coordinates on an
  unbounded grid.
\<close>

subsection \<open>Pixel values\<close>

type_synonym pixel = "int \<times> int"

text \<open>
  A pixel of a band holds an integer (the quality band, and the 0/1 results of comparisons
  and logical operations), a number, or the not-a-number sentinel.
\<close>

datatype val = IntV int | Num real | NaN

type_synonym raster = "pixel \<Rightarrow> val"

text \<open>
  The failures of a call. MissingBand, ShapeMismatch and InvalidParameter are the error kinds
  the spec names; MissingProperty is a metadata key that is absent, and IndexError is
  Python's error for \<^verbatim>\<open>thresholds[i]\<close> on a list that is too short.
\<close>

datatype error =
    MissingBand string
  | MissingProperty string
  | IndexError
  | InvalidParameter
  | ShapeMismatch

text \<open>
  A raster: its named bands in order, its scene metadata, and the nominal scale of its
  projection in metres per pixel.
\<close>

record image =
  bands :: "(string \<times> raster) list"
  properties :: "(string \<times> real) list"
  projection_scale :: real

text \<open>A failure ends the computation, as a raised exception does.\<close>

definition bindE :: "error + 'a \<Rightarrow> ('a \<Rightarrow> error + 'b) \<Rightarrow> error + 'b" where
  "bindE m f = (case m of Inl e \<Rightarrow> Inl e | Inr x \<Rightarrow> f x)"

text \<open>Modelled from the spec: the number a pixel value stands for; the sentinel has none.\<close>

fun to_real :: "val \<Rightarrow> real option" where
  "to_real (IntV n) = Some (real_of_int n)"
| "to_real (Num x) = Some x"
| "to_real NaN = None"

text \<open>Modelled from the spec: a boolean result is the pixel value 1 or 0.\<close>

definition bool_val :: "bool \<Rightarrow> val" where
  "bool_val b = (if b then IntV 1 else IntV 0)"

text \<open>
  Modelled from the spec: a pixel value counts as true when it is a non-zero number. The
  functions of the notebook apply logical operations to results of comparisons only, which
  are 1 or 0.
\<close>

fun truthy :: "val \<Rightarrow> bool" where
  "truthy (IntV n) = (n \<noteq> 0)"
| "truthy (Num x) = (x \<noteq> 0)"
| "truthy NaN = False"

text \<open>
  The raster computation substrate (the Earth Engine library) is called by the notebook and
  is not part of the repository. Its operations are modelled from the spec: arithmetic is
  elementwise; a zero denominator gives the not-a-number sentinel; the sentinel propagates
  through elementwise arithmetic and minimum/maximum; a threshold comparison with the
  sentinel fails.
\<close>

text \<open>
  Modelled from the spec: a binary arithmetic operation reads both operands as numbers and
  gives the sentinel as soon as one operand is the sentinel.
\<close>

definition arith2 :: "(real \<Rightarrow> real \<Rightarrow> val) \<Rightarrow> val \<Rightarrow> val \<Rightarrow> val" where
  "arith2 f a b =
     (case to_real a of
        None \<Rightarrow> NaN
      | Some x \<Rightarrow> (case to_real b of None \<Rightarrow> NaN | Some y \<Rightarrow> f x y))"

text \<open>Modelled from the spec: elementwise addition.\<close>

definition vadd :: "val \<Rightarrow> val \<Rightarrow> val" where
  "vadd = arith2 (\<lambda>x y. Num (x + y))"

text \<open>Modelled from the spec: elementwise subtraction.\<close>

definition vsub :: "val \<Rightarrow> val \<Rightarrow> val" where
  "vsub = arith2 (\<lambda>x y. Num (x - y))"

text \<open>
  Modelled from the spec: elementwise division; a zero denominator gives the not-a-number
  sentinel instead of failing.
\<close>

definition vdiv :: "val \<Rightarrow> val \<Rightarrow> val" where
  "vdiv = arith2 (\<lambda>x y. if y = 0 then NaN else Num (x / y))"

text \<open>Modelled from the spec: the minimum of two pixel values (minAggregate).\<close>

definition vmin :: "val \<Rightarrow> val \<Rightarrow> val" where
  "vmin = arith2 (\<lambda>x y. Num (min x y))"

text \<open>Modelled from the spec: the maximum of two pixel values.\<close>

definition vmax :: "val \<Rightarrow> val \<Rightarrow> val" where
  "vmax = arith2 (\<lambda>x y. Num (max x y))"

text \<open>
  Modelled from the spec: threshold comparisons of the substrate give 1 or 0, and a
  comparison with the not-a-number sentinel fails (gives 0).
\<close>

definition vgt :: "val \<Rightarrow> val \<Rightarrow> val" where
  "vgt a b =
     (case to_real a of
        None \<Rightarrow> IntV 0
      | Some x \<Rightarrow> (case to_real b of None \<Rightarrow> IntV 0 | Some y \<Rightarrow> bool_val (y < x)))"

text \<open>
  Modelled from the spec: the equality test of the substrate gives 1 or 0, and fails on the
  sentinel.
\<close>

definition veq :: "val \<Rightarrow> val \<Rightarrow> val" where
  "veq a b =
     (case to_real a of
        None \<Rightarrow> IntV 0
      | Some x \<Rightarrow> (case to_real b of None \<Rightarrow> IntV 0 | Some y \<Rightarrow> bool_val (x = y)))"

text \<open>
  Modelled from the spec: logical operations of the substrate read a value as true when it
  is non-zero and give 1 or 0.
\<close>

definition vand :: "val \<Rightarrow> val \<Rightarrow> val" where
  "vand a b = bool_val (truthy a \<and> truthy b)"

text \<open>Modelled from the spec: logical negation, 1 on a zero value and 0 otherwise.\<close>

definition vnot :: "val \<Rightarrow> val" where
  "vnot a = bool_val (\<not> truthy a)"

text \<open>
  Modelled from the spec: the bit test of the substrate is defined on the integer-valued
  quality band; on a value that is not an integer the model gives the sentinel.
\<close>

fun vbitand :: "val \<Rightarrow> int \<Rightarrow> val" where
  "vbitand (IntV n) m = IntV (n AND m)"
| "vbitand (Num x) m = NaN"
| "vbitand NaN m = NaN"

subsection \<open>Raster operations used by the notebook\<close>

text \<open>
  The image methods of the substrate that the notebook calls, each applied pixel by pixel.
\<close>

text \<open>Modelled from the spec: \<^verbatim>\<open>ee.Image(c)\<close>, the constant raster.\<close>

definition constant_img :: "val \<Rightarrow> raster" where
  "constant_img c = (\<lambda>p. c)"

text \<open>Modelled from the spec: \<^verbatim>\<open>img.subtract(c)\<close>.\<close>

definition subtract :: "raster \<Rightarrow> real \<Rightarrow> raster" where
  "subtract r c = (\<lambda>p. vsub (r p) (Num c))"

text \<open>Modelled from the spec: \<^verbatim>\<open>img.divide(c)\<close>.\<close>

definition divide_r :: "raster \<Rightarrow> real \<Rightarrow> raster" where
  "divide_r r c = (\<lambda>p. vdiv (r p) (Num c))"

text \<open>Modelled from the spec: \<^verbatim>\<open>img.add(other)\<close>.\<close>

definition add :: "raster \<Rightarrow> raster \<Rightarrow> raster" where
  "add r s = (\<lambda>p. vadd (r p) (s p))"

text \<open>Modelled from the spec: \<^verbatim>\<open>img.min(other)\<close>, the per-pixel minimum.\<close>

definition min_r :: "raster \<Rightarrow> raster \<Rightarrow> raster" where
  "min_r r s = (\<lambda>p. vmin (r p) (s p))"

text \<open>Modelled from the spec: \<^verbatim>\<open>img.gt(t)\<close>, the threshold test score > t.\<close>

definition gt :: "raster \<Rightarrow> real \<Rightarrow> raster" where
  "gt r c = (\<lambda>p. vgt (r p) (Num c))"

text \<open>Modelled from the spec: \<^verbatim>\<open>img.eq(c)\<close>.\<close>

definition eq_r :: "raster \<Rightarrow> int \<Rightarrow> raster" where
  "eq_r r c = (\<lambda>p. veq (r p) (IntV c))"

text \<open>Modelled from the spec: \<^verbatim>\<open>img.bitwiseAnd(m)\<close>.\<close>

definition bitwiseAnd :: "raster \<Rightarrow> int \<Rightarrow> raster" where
  "bitwiseAnd r m = (\<lambda>p. vbitand (r p) m)"

text \<open>Modelled from the spec: \<^verbatim>\<open>img.And(other)\<close>.\<close>

definition And_r :: "raster \<Rightarrow> raster \<Rightarrow> raster" where
  "And_r r s = (\<lambda>p. vand (r p) (s p))"

text \<open>Modelled from the spec: \<^verbatim>\<open>img.Not()\<close>.\<close>

definition Not_r :: "raster \<Rightarrow> raster" where
  "Not_r r = (\<lambda>p. vnot (r p))"

text \<open>
  Modelled from the spec: \<^verbatim>\<open>img.select(name)\<close>; selecting a band that the raster
  does not have is the error MissingBand.
\<close>

definition select :: "image \<Rightarrow> string \<Rightarrow> error + raster" where
  "select img b =
     (case map_of (bands img) b of None \<Rightarrow> Inl (MissingBand b) | Some r \<Rightarrow> Inr r)"

text \<open>
  Modelled from the spec: \<^verbatim>\<open>img.addBands(band)\<close> with the band renamed to
  \<open>name\<close>; the new band is layered on the input and no prior band is destroyed.
\<close>

definition addBands :: "image \<Rightarrow> string \<Rightarrow> raster \<Rightarrow> image" where
  "addBands img name r = img\<lparr>bands := bands img @ [(name, r)]\<rparr>"

text \<open>
  Modelled from the spec: \<^verbatim>\<open>img.get(key)\<close> reads a scalar of the scene metadata.
\<close>

definition get :: "image \<Rightarrow> string \<Rightarrow> error + real" where
  "get img k =
     (case map_of (properties img) k of None \<Rightarrow> Inl (MissingProperty k) | Some x \<Rightarrow> Inr x)"

text \<open>
  Modelled from the spec: \<^verbatim>\<open>normalizedDifference\<close> is (A - B) / (A + B) per pixel, and
  a pixel whose denominator is zero holds the not-a-number sentinel.
\<close>

definition normalizedDifference :: "image \<Rightarrow> string \<Rightarrow> string \<Rightarrow> error + raster" where
  "normalizedDifference img a b =
     bindE (select img a) (\<lambda>ra.
     bindE (select img b) (\<lambda>rb.
       Inr (\<lambda>p. vdiv (vsub (ra p) (rb p)) (vadd (ra p) (rb p)))))"

subsection \<open>rescale\<close>

text \<open>
  \<^verbatim>\<open>rescale(img, thresholds)\<close> returns
  \<^verbatim>\<open>img.subtract(thresholds[0]).divide(thresholds[1] - thresholds[0])\<close>. Indexing a
  list that is too short raises IndexError in Python; nothing else is checked.
\<close>

definition nth_py :: "real list \<Rightarrow> nat \<Rightarrow> error + real" where
  "nth_py xs i = (if i < length xs then Inr (xs ! i) else Inl IndexError)"

definition rescale :: "raster \<Rightarrow> real list \<Rightarrow> error + raster" where
  "rescale img thresholds =
     bindE (nth_py thresholds 0) (\<lambda>t0.
     bindE (nth_py thresholds 1) (\<lambda>t1.
     bindE (nth_py thresholds 0) (\<lambda>t0'.
       Inr (divide_r (subtract img t0) (t1 - t0')))))"

subsection \<open>ESAcloudMask\<close>

definition cloudBitMask :: int where
  "cloudBitMask = 2 ^ 10"

definition cirrusBitMask :: int where
  "cirrusBitMask = 2 ^ 11"

definition ESAcloudMask :: "image \<Rightarrow> error + image" where
  "ESAcloudMask img =
     bindE (select img ''QA60'') (\<lambda>qa.
       let clear = And_r (eq_r (bitwiseAnd qa cloudBitMask) 0)
                       (eq_r (bitwiseAnd qa cirrusBitMask) 0);
           cloud = Not_r clear
       in Inr (addBands img ''ESA_clouds'' cloud))"

subsection \<open>sentinelCloudScore\<close>

text \<open>
  The six rescaled indicators of \<^verbatim>\<open>sentinelCloudScore\<close>, in the order of the source.
  Each is the argument of one \<^verbatim>\<open>score.min(...)\<close> call.
\<close>

definition ind_blue :: "image \<Rightarrow> error + raster" where
  "ind_blue img = bindE (select img ''blue'') (\<lambda>blue. rescale blue [0.1, 0.5])"

definition ind_aerosol :: "image \<Rightarrow> error + raster" where
  "ind_aerosol img = bindE (select img ''aerosol'') (\<lambda>aerosol. rescale aerosol [0.1, 0.3])"

definition ind_cirrus :: "image \<Rightarrow> error + raster" where
  "ind_cirrus img =
     bindE (select img ''aerosol'') (\<lambda>aerosol.
     bindE (select img ''cirrus'') (\<lambda>cirrus.
       rescale (add aerosol cirrus) [0.15, 0.2]))"

definition ind_rgb :: "image \<Rightarrow> error + raster" where
  "ind_rgb img =
     bindE (select img ''red'') (\<lambda>red.
     bindE (select img ''green'') (\<lambda>green.
     bindE (select img ''blue'') (\<lambda>blue.
       rescale (add (add red green) blue) [0.2, 0.8])))"

definition ind_ndmi :: "image \<Rightarrow> error + raster" where
  "ind_ndmi img =
     bindE (normalizedDifference img ''red4'' ''swir1'') (\<lambda>ndmi. rescale ndmi [- 0.1, 0.1])"

definition ind_ndsi :: "image \<Rightarrow> error + raster" where
  "ind_ndsi img =
     bindE (normalizedDifference img ''green'' ''swir1'') (\<lambda>ndsi. rescale ndsi [0.8, 0.6])"

definition sentinelCloudScore :: "image \<Rightarrow> error + image" where
  "sentinelCloudScore img =
     (let score = constant_img (IntV 1) in
      bindE (ind_blue img) (\<lambda>i1. let score = min_r score i1 in
      bindE (ind_aerosol img) (\<lambda>i2. let score = min_r score i2 in
      bindE (ind_cirrus img) (\<lambda>i3. let score = min_r score i3 in
      bindE (ind_rgb img) (\<lambda>i4. let score = min_r score i4 in
      bindE (ind_ndmi img) (\<lambda>i5. let score = min_r score i5 in
      bindE (ind_ndsi img) (\<lambda>i6. let score = min_r score i6 in
        Inr (addBands img ''cloudScore'' score))))))))"

subsection \<open>shadowMask\<close>

text \<open>
  Modelled from the spec: the translation of a mask (\<^verbatim>\<open>changeProj\<close> to the
  translated projection) is an integer pixel offset applied to the coordinate lookup: the
  pixel at \<open>(px, py)\<close> moves to \<open>(px + x, py + y)\<close>.
\<close>

definition translate :: "raster \<Rightarrow> int \<Rightarrow> int \<Rightarrow> raster" where
  "translate r x y = (\<lambda>(px, py). r (px - x, py - y))"

text \<open>
  Modelled from the spec: the composite of the translated masks is the per-pixel maximum
  over the stack.
\<close>

fun collection_max :: "raster list \<Rightarrow> raster" where
  "collection_max [] = (\<lambda>p. NaN)"
| "collection_max [r] = r"
| "collection_max (r # rs) = (\<lambda>p. vmax (r p) (collection_max rs p))"

text \<open>
  Modelled from the spec: \<^verbatim>\<open>ee.List.sequence(start, end, step)\<close> is the ordered
  sequence start, start + step, ... up to end.
\<close>

definition ee_sequence :: "int \<Rightarrow> int \<Rightarrow> int \<Rightarrow> real list" where
  "ee_sequence start stop step =
     map (\<lambda>k. real_of_int (start + step * k)) [0 .. (stop - start) div step]"

definition cloudScoreThreshold :: real where
  "cloudScoreThreshold = 0.5"

definition cloudHeights :: "real list" where
  "cloudHeights = ee_sequence 500 4000 500"

text \<open>
  The solar geometry in radians, as \<^verbatim>\<open>shadowMask\<close> computes it from the metadata
  in degrees.
\<close>

definition shadow_azimuth :: "real \<Rightarrow> real" where
  "shadow_azimuth solar_azimuth = solar_azimuth * pi / 180.0 + 0.5 * pi"

definition shadow_zenith :: "real \<Rightarrow> real" where
  "shadow_zenith solar_zenith = 0.5 * pi - solar_zenith * pi / 180.0"

text \<open>
  The inner function \<^verbatim>\<open>potentialShadow(cloudHeight)\<close>; the variables it closes over
  (\<^verbatim>\<open>cloudMask\<close>, \<^verbatim>\<open>azimuth\<close>, \<^verbatim>\<open>zenith\<close>, \<^verbatim>\<open>nominalScale\<close>) are
  parameters. \<open>shadow_offset\<close> is its pair \<^verbatim>\<open>(x, y)\<close>; \<^verbatim>\<open>round\<close> is the
  nearest integer.
\<close>

definition shadow_offset :: "real \<Rightarrow> real \<Rightarrow> real \<Rightarrow> real \<Rightarrow> int \<times> int" where
  "shadow_offset azimuth zenith nominalScale cloudHeight =
     (let shadowVector = tan zenith * cloudHeight;
          x = round (cos azimuth * shadowVector / nominalScale);
          y = round (sin azimuth * shadowVector / nominalScale)
      in (x, y))"

definition potentialShadow :: "raster \<Rightarrow> real \<Rightarrow> real \<Rightarrow> real \<Rightarrow> real \<Rightarrow> raster" where
  "potentialShadow cloudMask azimuth zenith nominalScale cloudHeight =
     (case shadow_offset azimuth zenith nominalScale cloudHeight of
        (x, y) \<Rightarrow> translate cloudMask x y)"

text \<open>
  \<^verbatim>\<open>shadowMask(img, cloudMaskType)\<close>. The body reads the variable \<^verbatim>\<open>toa\<close>,
  which is neither a parameter nor a local: it is the notebook's global raster, and is the
  first argument here. The source rebinds the name \<^verbatim>\<open>potentialShadow\<close> twice, to
  the composite of the stack and to the composite without the cloud pixels; these are
  \<open>potentialShadow1\<close> and \<open>potentialShadow2\<close>.
\<close>

definition shadowMask :: "image \<Rightarrow> image \<Rightarrow> string \<Rightarrow> error + image" where
  "shadowMask toa img cloudMaskType =
     bindE (select img cloudMaskType) (\<lambda>sel.
     let cloudMask = gt sel cloudScoreThreshold in
     bindE (get img ''solar_azimuth'') (\<lambda>az.
     bindE (get img ''solar_zenith'') (\<lambda>zen.
     let azimuth = shadow_azimuth az;
         zenith = shadow_zenith zen;
         potentialShadowStack =
           map (potentialShadow cloudMask azimuth zenith (projection_scale img)) cloudHeights;
         potentialShadow1 = collection_max potentialShadowStack;
         potentialShadow2 = And_r potentialShadow1 (Not_r cloudMask) in
     bindE (normalizedDifference toa ''green'' ''swir2'') (\<lambda>nd.
     let darkPixels = gt nd 0.25;
         shadows = And_r potentialShadow2 darkPixels
     in Inr (addBands img ''shadows'' shadows)))))"

section \<open>The spec's formulas\<close>

text \<open>
  The indicators as the spec words them, over plain numbers, to be compared with what the
  code computes: \<open>rescale\<close> is (input - low) / (high - low),
  \<open>normalizedDifference\<close> is (A - B) / (A + B), and \<open>minAggregate\<close> is the minimum
  of its inputs.
\<close>

definition spec_rescale :: "real \<Rightarrow> real \<Rightarrow> real \<Rightarrow> real" where
  "spec_rescale x low high = (x - low) / (high - low)"

definition spec_normalizedDifference :: "real \<Rightarrow> real \<Rightarrow> real" where
  "spec_normalizedDifference a b = (a - b) / (a + b)"

definition spec_minAggregate :: "real list \<Rightarrow> real" where
  "spec_minAggregate xs = Min (set xs)"

definition spec_indicators ::
  "real \<Rightarrow> real \<Rightarrow> real \<Rightarrow> real \<Rightarrow> real \<Rightarrow> real \<Rightarrow> real \<Rightarrow> real list" where
  "spec_indicators blue aerosol cirrus red green red4 swir1 =
     [spec_rescale blue 0.1 0.5,
      spec_rescale aerosol 0.1 0.3,
      spec_rescale (aerosol + cirrus) 0.15 0.20,
      spec_rescale (red + green + blue) 0.2 0.8,
      spec_rescale (spec_normalizedDifference red4 swir1) (- 0.1) 0.1,
      spec_rescale (spec_normalizedDifference green swir1) 0.8 0.6]"

section \<open>Auxiliary notions for the proofs\<close>

text \<open>The number a band holds at a pixel, if the band exists and the pixel is a number.\<close>

definition band_at :: "image \<Rightarrow> string \<Rightarrow> pixel \<Rightarrow> real option" where
  "band_at img b p = (case select img b of Inl e \<Rightarrow> None | Inr r \<Rightarrow> to_real (r p))"

definition in_unit_interval :: "val \<Rightarrow> bool" where
  "in_unit_interval v = (case to_real v of None \<Rightarrow> False | Some x \<Rightarrow> 0 \<le> x \<and> x \<le> 1)"

definition at_most_one :: "val \<Rightarrow> bool" where
  "at_most_one v = (case to_real v of None \<Rightarrow> True | Some x \<Rightarrow> x \<le> 1)"

text \<open>
  The comparison of a pixel value with 1; like every comparison, it fails on the sentinel.
\<close>

definition le_one :: "val \<Rightarrow> bool" where
  "le_one v = (case to_real v of None \<Rightarrow> False | Some x \<Rightarrow> x \<le> 1)"

text \<open>A pixel value that stands for 0 or 1, as the values of a mask do.\<close>

definition zero_one :: "val \<Rightarrow> bool" where
  "zero_one v = (to_real v = Some 0 \<or> to_real v = Some 1)"

text \<open>
  What \<open>rescale\<close>, \<open>normalizedDifference\<close>, \<open>sentinelCloudScore\<close> and
  \<open>shadowMask\<close> compute at one pixel, as functions of the pixel values they read.
\<close>

definition rescale_px :: "val \<Rightarrow> real \<Rightarrow> real \<Rightarrow> val" where
  "rescale_px v lo hi = vdiv (vsub v (Num lo)) (Num (hi - lo))"

definition nd_px :: "val \<Rightarrow> val \<Rightarrow> val" where
  "nd_px a b = vdiv (vsub a b) (vadd a b)"

definition score_px :: "val \<Rightarrow> val \<Rightarrow> val \<Rightarrow> val \<Rightarrow> val \<Rightarrow> val \<Rightarrow> val \<Rightarrow> val" where
  "score_px blue aerosol cirrus red green red4 swir1 =
     vmin (vmin (vmin (vmin (vmin (vmin (IntV 1)
       (rescale_px blue 0.1 0.5))
       (rescale_px aerosol 0.1 0.3))
       (rescale_px (vadd aerosol cirrus) 0.15 0.2))
       (rescale_px (vadd (vadd red green) blue) 0.2 0.8))
       (rescale_px (nd_px red4 swir1) (- 0.1) 0.1))
       (rescale_px (nd_px green swir1) 0.8 0.6)"

definition shadows_of :: "raster \<Rightarrow> real \<Rightarrow> real \<Rightarrow> real \<Rightarrow> raster \<Rightarrow> raster" where
  "shadows_of sel az zen scale nd =
     And_r (And_r (collection_max
                     (map (potentialShadow (gt sel cloudScoreThreshold) (shadow_azimuth az)
                             (shadow_zenith zen) scale) cloudHeights))
                  (Not_r (gt sel cloudScoreThreshold)))
           (gt nd 0.25)"

section \<open>Example inputs\<close>

text \<open>
  A quality band whose four pixels (0,0), (1,0), (0,1), (1,1) carry the four combinations of
  bits 10 and 11.
\<close>

definition qa_demo :: raster where
  "qa_demo = (\<lambda>(x, y). IntV (1024 * x + 2048 * y))"

definition qa_image :: image where
  "qa_image = \<lparr>bands = [(''QA60'', qa_demo)], properties = [], projection_scale = 60\<rparr>"

text \<open>A raster with the same reflectances at every pixel.\<close>

definition uniform_image ::
  "real \<Rightarrow> real \<Rightarrow> real \<Rightarrow> real \<Rightarrow> real \<Rightarrow> real \<Rightarrow> real \<Rightarrow> image" where
  "uniform_image blue aerosol cirrus red green red4 swir1 =
     \<lparr>bands = [(''aerosol'', constant_img (Num aerosol)), (''blue'', constant_img (Num blue)),
               (''green'', constant_img (Num green)), (''red'', constant_img (Num red)),
               (''red4'', constant_img (Num red4)), (''cirrus'', constant_img (Num cirrus)),
               (''swir1'', constant_img (Num swir1))],
      properties = [], projection_scale = 10\<rparr>"

text \<open>A dark surface: blue reflectance 0.\<close>

definition dark_image :: image where
  "dark_image = uniform_image 0 0.1 0.05 0.1 0.1 0.2 0.1"

text \<open>A bright, moist surface: every indicator is above 1.\<close>

definition bright_image :: image where
  "bright_image = uniform_image 0.6 0.4 0 0.6 0.6 0.6 0.2"

text \<open>An edge pixel: red4 and swir1 are both zero.\<close>

definition edge_image :: image where
  "edge_image = uniform_image 0.3 0.2 0.1 0.3 0.3 0 0"

text \<open>Two columns of pixels with different green reflectance.\<close>

definition snow_image :: image where
  "snow_image =
     \<lparr>bands = [(''green'', (\<lambda>(x, y). if x = 0 then Num 0.3 else Num 0.9)),
               (''swir1'', constant_img (Num 0.1))],
      properties = [], projection_scale = 10\<rparr>"

definition flat_raster :: raster where
  "flat_raster = constant_img (Num 1)"

text \<open>
  A scored raster with one cloud pixel at the origin, the sun at azimuth 0 and zenith 45
  degrees, and a ground scale of 10 m.
\<close>

definition cloudy_image :: image where
  "cloudy_image =
     \<lparr>bands = [(''cloudScore'', (\<lambda>p. if p = (0, 0) then Num 1 else Num 0)),
               (''green'', constant_img (Num 0.3)), (''swir2'', constant_img (Num 0.1))],
      properties = [(''solar_azimuth'', 0), (''solar_zenith'', 45)],
      projection_scale = 10\<rparr>"

text \<open>Three values of the notebook's global raster \<^verbatim>\<open>toa\<close>.\<close>

definition toa_dark :: image where
  "toa_dark =
     \<lparr>bands = [(''green'', constant_img (Num 0.3)), (''swir2'', constant_img (Num 0.1))],
      properties = [], projection_scale = 10\<rparr>"

definition toa_light :: image where
  "toa_light =
     \<lparr>bands = [(''green'', constant_img (Num 0.1)), (''swir2'', constant_img (Num 0.1))],
      properties = [], projection_scale = 10\<rparr>"

definition toa_zero :: image where
  "toa_zero =
     \<lparr>bands = [(''green'', constant_img (Num 0)), (''swir2'', constant_img (Num 0))],
      properties = [], projection_scale = 10\<rparr>"

section \<open>Properties\<close>

subsection \<open>Pixel values and errors\<close>

lemma bindE_Inr_iff:
  "bindE m f = Inr y \<longleftrightarrow> (\<exists>x. m = Inr x \<and> f x = Inr y)"
  by (cases m) (simp_all add: bindE_def)

lemma bindE_Inr [simp]: "bindE (Inr x) f = f x"
  by (simp add: bindE_def)

lemma bindE_Inl [simp]: "bindE (Inl e) f = Inl e"
  by (simp add: bindE_def)

lemma truthy_bool_val [simp]: "truthy (bool_val b) = b"
  by (simp add: bool_val_def)

lemma arith2_Some: "to_real a = Some x \<Longrightarrow> to_real b = Some y \<Longrightarrow> arith2 f a b = f x y"
  by (simp add: arith2_def)

lemma vadd_Some: "to_real a = Some x \<Longrightarrow> to_real b = Some y \<Longrightarrow> vadd a b = Num (x + y)"
  by (simp add: vadd_def arith2_Some)

lemma vmin_Some: "to_real a = Some x \<Longrightarrow> to_real b = Some y \<Longrightarrow> vmin a b = Num (min x y)"
  by (simp add: vmin_def arith2_Some)

lemma vmin_cases: "vmin a b = NaN \<or> (\<exists>x y. to_real a = Some x \<and> to_real b = Some y \<and> vmin a b = Num (min x y))"
  by (cases "to_real a"; cases "to_real b") (simp_all add: vmin_def arith2_def)

lemma vmin_shape: "vmin a b = NaN \<or> (\<exists>x. vmin a b = Num x)"
  using vmin_cases [of a b] by auto

lemma at_most_one_vmin: "at_most_one a \<Longrightarrow> at_most_one (vmin a b)"
  using vmin_cases [of a b] by (auto simp add: at_most_one_def)

lemma vmin_NaN_right: "vmin a NaN = NaN"
  by (simp add: vmin_def arith2_def split: option.splits)

lemma vmin_NaN_left: "vmin NaN b = NaN"
  by (simp add: vmin_def arith2_def)

lemma rescale_px_Some:
  "to_real v = Some x \<Longrightarrow> hi \<noteq> lo \<Longrightarrow> rescale_px v lo hi = Num (spec_rescale x lo hi)"
  by (simp add: rescale_px_def vdiv_def vsub_def arith2_Some spec_rescale_def)

lemma rescale_px_NaN: "rescale_px NaN lo hi = NaN"
  by (simp add: rescale_px_def vdiv_def vsub_def arith2_def)

lemma nd_px_Some:
  "to_real a = Some x \<Longrightarrow> to_real b = Some y \<Longrightarrow> x + y \<noteq> 0 \<Longrightarrow>
   nd_px a b = Num (spec_normalizedDifference x y)"
  by (simp add: nd_px_def vdiv_def vsub_def vadd_def arith2_Some spec_normalizedDifference_def)

lemma nd_px_zero:
  "to_real a = Some x \<Longrightarrow> to_real b = Some y \<Longrightarrow> x + y = 0 \<Longrightarrow> nd_px a b = NaN"
  by (simp add: nd_px_def vdiv_def vsub_def vadd_def arith2_def)

lemma gt_NaN: "r p = NaN \<Longrightarrow> gt r t p = IntV 0"
  by (simp add: gt_def vgt_def)

lemma bit10_test: "(v AND (1024::int) = 0) \<longleftrightarrow> \<not> bit v 10"
  using and_exp_eq_0_iff_not_bit [of v 10] by simp

lemma bit11_test: "(v AND (2048::int) = 0) \<longleftrightarrow> \<not> bit v 11"
  using and_exp_eq_0_iff_not_bit [of v 11] by simp

subsection \<open>What the functions return\<close>

lemma rescale_pair: "rescale r [lo, hi] = Inr (\<lambda>p. rescale_px (r p) lo hi)"
  by (simp add: rescale_def nth_py_def divide_r_def subtract_def rescale_px_def)

lemma normalizedDifference_Inr:
  "select img a = Inr ra \<Longrightarrow> select img b = Inr rb \<Longrightarrow>
   normalizedDifference img a b = Inr (\<lambda>p. nd_px (ra p) (rb p))"
  by (simp add: normalizedDifference_def nd_px_def)

lemma select_cases: "(\<exists>r. select img b = Inr r) \<or> select img b = Inl (MissingBand b)"
  by (simp add: select_def split: option.splits)

lemma band_at_Some:
  "band_at img b p = Some x \<Longrightarrow> \<exists>r. select img b = Inr r \<and> to_real (r p) = Some x"
  by (simp add: band_at_def split: sum.splits)

lemma sentinelCloudScore_run:
  assumes "select img ''blue'' = Inr rb" "select img ''aerosol'' = Inr ra"
    "select img ''cirrus'' = Inr rc" "select img ''red'' = Inr rr"
    "select img ''green'' = Inr rg" "select img ''red4'' = Inr r4"
    "select img ''swir1'' = Inr rs"
  shows "sentinelCloudScore img =
     Inr (addBands img ''cloudScore''
       (\<lambda>p. score_px (rb p) (ra p) (rc p) (rr p) (rg p) (r4 p) (rs p)))"
  using assms
  by (simp add: sentinelCloudScore_def ind_blue_def ind_aerosol_def ind_cirrus_def ind_rgb_def
      ind_ndmi_def ind_ndsi_def rescale_pair normalizedDifference_Inr Let_def min_r_def
      constant_img_def add_def score_px_def)

lemma sentinelCloudScore_bands:
  assumes "sentinelCloudScore img = Inr out"
  shows "\<exists>rb ra rc rr rg r4 rs.
     select img ''blue'' = Inr rb \<and> select img ''aerosol'' = Inr ra \<and>
     select img ''cirrus'' = Inr rc \<and> select img ''red'' = Inr rr \<and>
     select img ''green'' = Inr rg \<and> select img ''red4'' = Inr r4 \<and>
     select img ''swir1'' = Inr rs"
proof -
  have b: "\<exists>r. select img ''blue'' = Inr r"
    using assms select_cases [of img "''blue''"]
    by (auto simp add: sentinelCloudScore_def ind_blue_def Let_def)
  have a: "\<exists>r. select img ''aerosol'' = Inr r"
    using assms select_cases [of img "''aerosol''"] b
    by (auto simp add: sentinelCloudScore_def ind_blue_def ind_aerosol_def Let_def rescale_pair)
  have c: "\<exists>r. select img ''cirrus'' = Inr r"
    using assms select_cases [of img "''cirrus''"] a b
    by (auto simp add: sentinelCloudScore_def ind_blue_def ind_aerosol_def ind_cirrus_def
        Let_def rescale_pair)
  have r: "\<exists>r. select img ''red'' = Inr r"
    using assms select_cases [of img "''red''"] a b c
    by (auto simp add: sentinelCloudScore_def ind_blue_def ind_aerosol_def ind_cirrus_def
        ind_rgb_def Let_def rescale_pair)
  have g: "\<exists>r. select img ''green'' = Inr r"
    using assms select_cases [of img "''green''"] a b c r
    by (auto simp add: sentinelCloudScore_def ind_blue_def ind_aerosol_def ind_cirrus_def
        ind_rgb_def Let_def rescale_pair)
  have r4: "\<exists>r. select img ''red4'' = Inr r"
    using assms select_cases [of img "''red4''"] a b c r g
    by (auto simp add: sentinelCloudScore_def ind_blue_def ind_aerosol_def ind_cirrus_def
        ind_rgb_def ind_ndmi_def normalizedDifference_def Let_def rescale_pair)
  have s: "\<exists>r. select img ''swir1'' = Inr r"
    using assms select_cases [of img "''swir1''"] a b c r g r4
    by (auto simp add: sentinelCloudScore_def ind_blue_def ind_aerosol_def ind_cirrus_def
        ind_rgb_def ind_ndmi_def normalizedDifference_def Let_def rescale_pair)
  from a b c r g r4 s show ?thesis by blast
qed

lemma score_px_Some:
  assumes "to_real vb = Some blue" "to_real va = Some aerosol" "to_real vc = Some cirrus"
    "to_real vr = Some red" "to_real vg = Some green" "to_real v4 = Some red4"
    "to_real vs = Some swir1" "red4 + swir1 \<noteq> 0" "green + swir1 \<noteq> 0"
  shows "score_px vb va vc vr vg v4 vs =
     Num (min 1 (spec_minAggregate (spec_indicators blue aerosol cirrus red green red4 swir1)))"
proof -
  have i1: "rescale_px vb 0.1 0.5 = Num (spec_rescale blue 0.1 0.5)"
    using assms(1) by (simp add: rescale_px_Some)
  have i2: "rescale_px va 0.1 0.3 = Num (spec_rescale aerosol 0.1 0.3)"
    using assms(2) by (simp add: rescale_px_Some)
  have i3: "rescale_px (vadd va vc) 0.15 0.2 = Num (spec_rescale (aerosol + cirrus) 0.15 0.2)"
    using assms(2,3) by (simp add: rescale_px_Some vadd_Some)
  have i4: "rescale_px (vadd (vadd vr vg) vb) 0.2 0.8 =
      Num (spec_rescale (red + green + blue) 0.2 0.8)"
    using assms(1,4,5) by (simp add: rescale_px_Some vadd_Some)
  have i5: "rescale_px (nd_px v4 vs) (- 0.1) 0.1 =
      Num (spec_rescale (spec_normalizedDifference red4 swir1) (- 0.1) 0.1)"
    using assms(6,7,8) by (simp add: rescale_px_Some nd_px_Some)
  have i6: "rescale_px (nd_px vg vs) 0.8 0.6 =
      Num (spec_rescale (spec_normalizedDifference green swir1) 0.8 0.6)"
    using assms(5,7,9) by (simp add: rescale_px_Some nd_px_Some)
  show ?thesis
    unfolding score_px_def i1 i2 i3 i4 i5 i6
    by (simp add: vmin_Some spec_minAggregate_def spec_indicators_def min.assoc)
qed

lemma score_px_at_most_one:
  "score_px vb va vc vr vg v4 vs = NaN \<or> (\<exists>x. score_px vb va vc vr vg v4 vs = Num x \<and> x \<le> 1)"
proof -
  have "at_most_one (IntV 1)" by (simp add: at_most_one_def)
  then have "at_most_one (score_px vb va vc vr vg v4 vs)"
    unfolding score_px_def by (intro at_most_one_vmin)
  moreover have "score_px vb va vc vr vg v4 vs = NaN \<or> (\<exists>x. score_px vb va vc vr vg v4 vs = Num x)"
    unfolding score_px_def by (rule vmin_shape)
  ultimately show ?thesis by (auto simp add: at_most_one_def)
qed

lemma score_px_ndmi_zero:
  "to_real v4 = Some x \<Longrightarrow> to_real vs = Some y \<Longrightarrow> x + y = 0 \<Longrightarrow>
   score_px vb va vc vr vg v4 vs = NaN"
  by (simp add: score_px_def nd_px_zero rescale_px_NaN vmin_NaN_right vmin_NaN_left)

lemma score_px_ndsi_zero:
  "to_real vg = Some x \<Longrightarrow> to_real vs = Some y \<Longrightarrow> x + y = 0 \<Longrightarrow>
   score_px vb va vc vr vg v4 vs = NaN"
  by (simp add: score_px_def nd_px_zero rescale_px_NaN vmin_NaN_right)

lemma cloudScore_run_at:
  assumes "band_at img ''blue'' p = Some blue" "band_at img ''aerosol'' p = Some aerosol"
    "band_at img ''cirrus'' p = Some cirrus" "band_at img ''red'' p = Some red"
    "band_at img ''green'' p = Some green" "band_at img ''red4'' p = Some red4"
    "band_at img ''swir1'' p = Some swir1"
  shows "\<exists>rb ra rc rr rg r4 rs.
      sentinelCloudScore img =
        Inr (addBands img ''cloudScore''
              (\<lambda>p. score_px (rb p) (ra p) (rc p) (rr p) (rg p) (r4 p) (rs p)))
      \<and> to_real (rb p) = Some blue \<and> to_real (ra p) = Some aerosol
      \<and> to_real (rc p) = Some cirrus \<and> to_real (rr p) = Some red
      \<and> to_real (rg p) = Some green \<and> to_real (r4 p) = Some red4
      \<and> to_real (rs p) = Some swir1"
proof -
  from assms(1) obtain rb where rb: "select img ''blue'' = Inr rb" "to_real (rb p) = Some blue"
    using band_at_Some by blast
  from assms(2) obtain ra where ra: "select img ''aerosol'' = Inr ra" "to_real (ra p) = Some aerosol"
    using band_at_Some by blast
  from assms(3) obtain rc where rc: "select img ''cirrus'' = Inr rc" "to_real (rc p) = Some cirrus"
    using band_at_Some by blast
  from assms(4) obtain rr where rr: "select img ''red'' = Inr rr" "to_real (rr p) = Some red"
    using band_at_Some by blast
  from assms(5) obtain rg where rg: "select img ''green'' = Inr rg" "to_real (rg p) = Some green"
    using band_at_Some by blast
  from assms(6) obtain r4 where r4: "select img ''red4'' = Inr r4" "to_real (r4 p) = Some red4"
    using band_at_Some by blast
  from assms(7) obtain rs where rs: "select img ''swir1'' = Inr rs" "to_real (rs p) = Some swir1"
    using band_at_Some by blast
  have "sentinelCloudScore img =
      Inr (addBands img ''cloudScore''
            (\<lambda>p. score_px (rb p) (ra p) (rc p) (rr p) (rg p) (r4 p) (rs p)))"
    by (rule sentinelCloudScore_run [OF rb(1) ra(1) rc(1) rr(1) rg(1) r4(1) rs(1)])
  with rb(2) ra(2) rc(2) rr(2) rg(2) r4(2) rs(2) show ?thesis by blast
qed

lemma bands_addBands: "bands (addBands img name r) = bands img @ [(name, r)]"
  by (simp add: addBands_def)

lemma spec_minAggregate_nonneg:
  "xs \<noteq> [] \<Longrightarrow> 0 \<le> min 1 (spec_minAggregate xs) \<longleftrightarrow> (\<forall>i\<in>set xs. 0 \<le> i)"
  by (simp add: spec_minAggregate_def)

lemma spec_indicators_nonempty: "spec_indicators b a c r g r4 s \<noteq> []"
  by (simp add: spec_indicators_def)

lemma shadowMask_run:
  assumes "select img t = Inr sel" "get img ''solar_azimuth'' = Inr az"
    "get img ''solar_zenith'' = Inr zen" "normalizedDifference toa ''green'' ''swir2'' = Inr nd"
  shows "shadowMask toa img t =
     Inr (addBands img ''shadows'' (shadows_of sel az zen (projection_scale img) nd))"
  using assms by (simp add: shadowMask_def Let_def shadows_of_def)

lemma shadowMask_cases:
  assumes "shadowMask toa img t = Inr out"
  shows "\<exists>sel az zen nd. select img t = Inr sel \<and> get img ''solar_azimuth'' = Inr az
     \<and> get img ''solar_zenith'' = Inr zen
     \<and> normalizedDifference toa ''green'' ''swir2'' = Inr nd
     \<and> out = addBands img ''shadows'' (shadows_of sel az zen (projection_scale img) nd)"
  using assms
  by (auto simp add: shadowMask_def Let_def shadows_of_def bindE_Inr_iff)

lemma shadows_of_not_cloud:
  "\<not> (truthy (shadows_of sel az zen scale nd p) \<and> truthy (gt sel cloudScoreThreshold p))"
  by (simp add: shadows_of_def And_r_def Not_r_def vand_def vnot_def)

lemma shadows_of_dark_NaN: "nd p = NaN \<Longrightarrow> shadows_of sel az zen scale nd p = IntV 0"
  by (simp add: shadows_of_def And_r_def gt_NaN vand_def bool_val_def)

subsection \<open>The solar geometry at azimuth 0 and zenith 45 degrees\<close>

lemma shadow_azimuth_0: "shadow_azimuth 0 = pi / 2"
  by (simp add: shadow_azimuth_def)

lemma shadow_zenith_45: "shadow_zenith 45 = pi / 4"
  by (simp add: shadow_zenith_def)

lemma shadow_offset_demo:
  "shadow_offset (shadow_azimuth 0) (shadow_zenith 45) 10 h = (0, round (h / 10))"
  by (simp add: shadow_offset_def shadow_azimuth_0 shadow_zenith_45 tan_45 Let_def)

lemma upto_0_7: "[0..7::int] = [0, 1, 2, 3, 4, 5, 6, 7]"
  by code_simp

lemma cloudHeights_eq: "cloudHeights = [500, 1000, 1500, 2000, 2500, 3000, 3500, 4000]"
  by (simp add: cloudHeights_def ee_sequence_def upto_0_7)

subsection \<open>The composite of the translated masks\<close>

lemma round_heights:
  "h \<in> set cloudHeights \<Longrightarrow> round (h / 10) \<noteq> 0"
  by (auto simp add: cloudHeights_eq)

lemma zero_one_bool_val: "zero_one (bool_val b)"
  by (simp add: zero_one_def bool_val_def)

lemma zero_one_truthy: "zero_one v \<Longrightarrow> truthy v \<longleftrightarrow> to_real v = Some 1"
  by (cases v) (auto simp add: zero_one_def)

lemma zero_one_vmax:
  "zero_one a \<Longrightarrow> zero_one b \<Longrightarrow>
   zero_one (vmax a b) \<and> (truthy (vmax a b) \<longleftrightarrow> truthy a \<or> truthy b)"
  by (cases a; cases b) (auto simp add: zero_one_def vmax_def arith2_def)

lemma collection_max_truthy:
  "rs \<noteq> [] \<Longrightarrow> \<forall>r\<in>set rs. zero_one (r p) \<Longrightarrow>
   zero_one (collection_max rs p) \<and> (truthy (collection_max rs p) \<longleftrightarrow> (\<exists>r\<in>set rs. truthy (r p)))"
proof (induction rs rule: collection_max.induct)
  case 1
  then show ?case by simp
next
  case (2 r)
  then show ?case by simp
next
  case (3 r v va)
  then have ih: "zero_one (collection_max (v # va) p)"
    "truthy (collection_max (v # va) p) \<longleftrightarrow> (\<exists>r\<in>set (v # va). truthy (r p))"
    by simp_all
  from 3 have r: "zero_one (r p)" by simp
  from zero_one_vmax [OF r ih(1)] ih(2) show ?case by simp
qed

lemma gt_is_bool: "gt r t p = bool_val (truthy (gt r t p))"
  by (simp add: gt_def vgt_def bool_val_def split: option.splits)

lemma potentialShadow_at:
  "potentialShadow cm az zen sc h (px, py) =
     cm (px - fst (shadow_offset az zen sc h), py - snd (shadow_offset az zen sc h))"
  by (simp add: potentialShadow_def translate_def split: prod.splits)

lemma shadows_of_truthy:
  "truthy (shadows_of sel az zen sc nd p) \<longleftrightarrow>
     (\<exists>h\<in>set cloudHeights.
         truthy (potentialShadow (gt sel cloudScoreThreshold) (shadow_azimuth az)
                   (shadow_zenith zen) sc h p))
     \<and> \<not> truthy (gt sel cloudScoreThreshold p) \<and> truthy (gt nd 0.25 p)"
proof -
  let ?cm = "gt sel cloudScoreThreshold"
  let ?stack = "map (potentialShadow ?cm (shadow_azimuth az) (shadow_zenith zen) sc) cloudHeights"
  have ne: "?stack \<noteq> []" by (simp add: cloudHeights_eq)
  have zo: "\<forall>r\<in>set ?stack. zero_one (r p)"
  proof
    fix r assume "r \<in> set ?stack"
    then obtain h where r: "r = potentialShadow ?cm (shadow_azimuth az) (shadow_zenith zen) sc h"
      by auto
    obtain px py where p: "p = (px, py)" by (cases p)
    have "r p = ?cm (px - fst (shadow_offset (shadow_azimuth az) (shadow_zenith zen) sc h),
                     py - snd (shadow_offset (shadow_azimuth az) (shadow_zenith zen) sc h))"
      unfolding r p by (rule potentialShadow_at)
    then show "zero_one (r p)"
      using gt_is_bool zero_one_bool_val by metis
  qed
  from collection_max_truthy [OF ne zo]
  have "truthy (collection_max ?stack p) \<longleftrightarrow> (\<exists>r\<in>set ?stack. truthy (r p))"
    by simp
  then have cm: "truthy (collection_max ?stack p) \<longleftrightarrow>
      (\<exists>h\<in>set cloudHeights. truthy (potentialShadow ?cm (shadow_azimuth az) (shadow_zenith zen) sc h p))"
    by simp
  show ?thesis
    unfolding shadows_of_def And_r_def Not_r_def vand_def vnot_def truthy_bool_val cm
    by simp
qed

subsection \<open>The example inputs\<close>

lemma uniform_select:
  "select (uniform_image b a c r g r4 s) ''blue'' = Inr (constant_img (Num b))"
  "select (uniform_image b a c r g r4 s) ''aerosol'' = Inr (constant_img (Num a))"
  "select (uniform_image b a c r g r4 s) ''cirrus'' = Inr (constant_img (Num c))"
  "select (uniform_image b a c r g r4 s) ''red'' = Inr (constant_img (Num r))"
  "select (uniform_image b a c r g r4 s) ''green'' = Inr (constant_img (Num g))"
  "select (uniform_image b a c r g r4 s) ''red4'' = Inr (constant_img (Num r4))"
  "select (uniform_image b a c r g r4 s) ''swir1'' = Inr (constant_img (Num s))"
  by (simp_all add: select_def uniform_image_def)

lemma uniform_band_at:
  "band_at (uniform_image b a c r g r4 s) ''blue'' p = Some b"
  "band_at (uniform_image b a c r g r4 s) ''aerosol'' p = Some a"
  "band_at (uniform_image b a c r g r4 s) ''cirrus'' p = Some c"
  "band_at (uniform_image b a c r g r4 s) ''red'' p = Some r"
  "band_at (uniform_image b a c r g r4 s) ''green'' p = Some g"
  "band_at (uniform_image b a c r g r4 s) ''red4'' p = Some r4"
  "band_at (uniform_image b a c r g r4 s) ''swir1'' p = Some s"
  by (simp_all add: band_at_def uniform_select constant_img_def)

lemma uniform_score:
  "r4 + s \<noteq> 0 \<Longrightarrow> g + s \<noteq> 0 \<Longrightarrow>
   sentinelCloudScore (uniform_image b a c r g r4 s) =
     Inr (addBands (uniform_image b a c r g r4 s) ''cloudScore''
           (constant_img (Num (min 1 (spec_minAggregate (spec_indicators b a c r g r4 s))))))"
  by (simp add: sentinelCloudScore_run [OF uniform_select] constant_img_def score_px_Some)

lemma dark_indicators: "spec_minAggregate (spec_indicators 0 0.1 0.05 0.1 0.1 0.2 0.1) = - (1/4)"
  by (simp add: spec_minAggregate_def spec_indicators_def spec_rescale_def spec_normalizedDifference_def)

lemma bright_indicators: "spec_minAggregate (spec_indicators 0.6 0.4 0 0.6 0.6 0.6 0.2) = 5/4"
  by (simp add: spec_minAggregate_def spec_indicators_def spec_rescale_def spec_normalizedDifference_def)

lemma dark_run:
  "sentinelCloudScore dark_image =
     Inr (addBands dark_image ''cloudScore'' (constant_img (Num (- (1/4)))))"
proof -
  have "sentinelCloudScore dark_image =
     Inr (addBands dark_image ''cloudScore''
           (constant_img (Num (min 1 (spec_minAggregate
              (spec_indicators 0 0.1 0.05 0.1 0.1 0.2 0.1))))))"
    unfolding dark_image_def by (rule uniform_score) simp_all
  then show ?thesis unfolding dark_indicators by simp
qed

lemma bright_run:
  "sentinelCloudScore bright_image =
     Inr (addBands bright_image ''cloudScore'' (constant_img (Num 1)))"
proof -
  have "sentinelCloudScore bright_image =
     Inr (addBands bright_image ''cloudScore''
           (constant_img (Num (min 1 (spec_minAggregate
              (spec_indicators 0.6 0.4 0 0.6 0.6 0.6 0.2))))))"
    unfolding bright_image_def by (rule uniform_score) simp_all
  then show ?thesis unfolding bright_indicators by simp
qed

lemma edge_run:
  "sentinelCloudScore edge_image =
     Inr (addBands edge_image ''cloudScore'' (constant_img NaN))"
proof -
  have "score_px (Num b) (Num a) (Num c) (Num r) (Num g) (Num 0) (Num 0) = NaN" for b a c r g
    by (rule score_px_ndmi_zero [of _ 0 _ 0]) simp_all
  then show ?thesis
    unfolding edge_image_def
    by (simp add: sentinelCloudScore_run [OF uniform_select] constant_img_def)
qed

lemma cloudy_select:
  "select cloudy_image ''cloudScore'' = Inr (\<lambda>p. if p = (0, 0) then Num 1 else Num 0)"
  by (simp add: select_def cloudy_image_def)

lemma cloudy_get:
  "get cloudy_image ''solar_azimuth'' = Inr 0" "get cloudy_image ''solar_zenith'' = Inr 45"
  by (simp_all add: get_def cloudy_image_def)

lemma toa_dark_nd:
  "normalizedDifference toa_dark ''green'' ''swir2'' = Inr (constant_img (Num (1/2)))"
  by (simp add: normalizedDifference_def select_def toa_dark_def constant_img_def
      vdiv_def vsub_def vadd_def arith2_def)

lemma toa_light_nd:
  "normalizedDifference toa_light ''green'' ''swir2'' = Inr (constant_img (Num 0))"
  by (simp add: normalizedDifference_def select_def toa_light_def constant_img_def
      vdiv_def vsub_def vadd_def arith2_def)

lemma cloudy_potential:
  "collection_max
     (map (potentialShadow (gt (\<lambda>p. if p = (0, 0) then Num 1 else Num 0) cloudScoreThreshold)
             (shadow_azimuth 0) (shadow_zenith 45) 10) cloudHeights) (0, 100) = Num 1"
  by (simp add: cloudHeights_eq potentialShadow_def shadow_offset_demo translate_def gt_def
      cloudScoreThreshold_def vgt_def vmax_def arith2_def bool_val_def)

lemma cloudy_run:
  "shadowMask toa_dark cloudy_image ''cloudScore'' =
     Inr (addBands cloudy_image ''shadows''
       (shadows_of (\<lambda>p. if p = (0, 0) then Num 1 else Num 0) 0 45
          (projection_scale cloudy_image) (constant_img (Num (1/2)))))"
  by (rule shadowMask_run [OF cloudy_select cloudy_get toa_dark_nd])

lemma snow_nd:
  "normalizedDifference snow_image ''green'' ''swir1'' =
     Inr (\<lambda>p. nd_px ((\<lambda>(x, y). if x = 0 then Num 0.3 else Num 0.9) p) (constant_img (Num 0.1) p))"
  by (rule normalizedDifference_Inr) (simp_all add: select_def snow_image_def)

section \<open>The claims\<close>

subsection \<open>The bitmask decoder\<close>

text \<open>
  C1. On every raster that has the QA60 band, \<open>ESAcloudMask\<close> returns, and for every
  integer value \<open>v\<close> of that band at a pixel the band ESA_clouds it appends is 1 at that
  pixel if and only if bit 10 or bit 11 of \<open>v\<close> is set, and 0 (clear) if and only if both
  bits are zero.
\<close>

theorem ESAcloudMask_bits:
  assumes "select img ''QA60'' = Inr qa" and "qa p = IntV v"
  shows "\<exists>out cloud. ESAcloudMask img = Inr out
           \<and> bands out = bands img @ [(''ESA_clouds'', cloud)]
           \<and> (cloud p = IntV 1 \<longleftrightarrow> bit v 10 \<or> bit v 11)
           \<and> (cloud p = IntV 0 \<longleftrightarrow> \<not> bit v 10 \<and> \<not> bit v 11)"
proof -
  let ?cloud = "Not_r (And_r (eq_r (bitwiseAnd qa cloudBitMask) 0)
                            (eq_r (bitwiseAnd qa cirrusBitMask) 0))"
  from assms(1) have run: "ESAcloudMask img = Inr (addBands img ''ESA_clouds'' ?cloud)"
    by (simp add: ESAcloudMask_def Let_def)
  have val: "?cloud p = bool_val (bit v 10 \<or> bit v 11)"
    using assms(2)
    by (auto simp add: And_r_def Not_r_def eq_r_def bitwiseAnd_def cloudBitMask_def
        cirrusBitMask_def veq_def bit10_test bit11_test vand_def vnot_def bool_val_def)
  have "bands (addBands img ''ESA_clouds'' ?cloud) = bands img @ [(''ESA_clouds'', ?cloud)]"
    by (rule bands_addBands)
  moreover have "?cloud p = IntV 1 \<longleftrightarrow> bit v 10 \<or> bit v 11"
    by (simp add: val bool_val_def)
  moreover have "?cloud p = IntV 0 \<longleftrightarrow> \<not> bit v 10 \<and> \<not> bit v 11"
    by (simp add: val bool_val_def)
  ultimately show ?thesis using run by blast
qed

text \<open>
  The decoder on the four combinations of the two bits: the flag is 0 only where both bits
  are zero.
\<close>

theorem ESAcloudMask_bits_witness:
  "\<exists>out cloud. ESAcloudMask qa_image = Inr out
     \<and> bands out = bands qa_image @ [(''ESA_clouds'', cloud)]
     \<and> cloud (0, 0) = IntV 0 \<and> cloud (1, 0) = IntV 1
     \<and> cloud (0, 1) = IntV 1 \<and> cloud (1, 1) = IntV 1"
proof -
  have sel: "select qa_image ''QA60'' = Inr qa_demo"
    by (simp add: select_def qa_image_def)
  have q00: "qa_demo (0, 0) = IntV 0" and q10: "qa_demo (1, 0) = IntV 1024"
    and q01: "qa_demo (0, 1) = IntV 2048" and q11: "qa_demo (1, 1) = IntV 3072"
    by (simp_all add: qa_demo_def)
  from ESAcloudMask_bits [OF sel q00]
  obtain out c where run: "ESAcloudMask qa_image = Inr out"
    and c: "bands out = bands qa_image @ [(''ESA_clouds'', c)]"
    and c00: "c (0, 0) = IntV 0"
    by auto
  from ESAcloudMask_bits [OF sel q10] run c have c10: "c (1, 0) = IntV 1"
    by auto
  from ESAcloudMask_bits [OF sel q01] run c have c01: "c (0, 1) = IntV 1"
    by auto
  from ESAcloudMask_bits [OF sel q11] run c have c11: "c (1, 1) = IntV 1"
    by auto
  from run c c00 c10 c01 c11 show ?thesis by blast
qed

subsection \<open>The cloud scorer\<close>

text \<open>
  C2, as the code has it. For a raster with all required bands and a pixel whose band values
  are numbers with non-zero normalized-difference denominators, the scorer returns without
  error and the combined score is a number at most 1; it is at least 0, hence in [0,1],
  exactly when each of the six rescaled indicators is at least 0 at that pixel. Nothing
  clamps the score from below.
\<close>

theorem cloudScore_range:
  assumes "band_at img ''blue'' p = Some blue" "band_at img ''aerosol'' p = Some aerosol"
    "band_at img ''cirrus'' p = Some cirrus" "band_at img ''red'' p = Some red"
    "band_at img ''green'' p = Some green" "band_at img ''red4'' p = Some red4"
    "band_at img ''swir1'' p = Some swir1"
    "red4 + swir1 \<noteq> 0" "green + swir1 \<noteq> 0"
  shows "\<exists>out score x. sentinelCloudScore img = Inr out
           \<and> bands out = bands img @ [(''cloudScore'', score)]
           \<and> score p = Num x \<and> x \<le> 1
           \<and> (0 \<le> x \<longleftrightarrow>
                (\<forall>i\<in>set (spec_indicators blue aerosol cirrus red green red4 swir1). 0 \<le> i))"
proof -
  let ?m = "min 1 (spec_minAggregate (spec_indicators blue aerosol cirrus red green red4 swir1))"
  from cloudScore_run_at [OF assms(1-7)] obtain rb ra rc rr rg r4 rs where
    run: "sentinelCloudScore img =
        Inr (addBands img ''cloudScore''
              (\<lambda>p. score_px (rb p) (ra p) (rc p) (rr p) (rg p) (r4 p) (rs p)))"
    and v: "to_real (rb p) = Some blue" "to_real (ra p) = Some aerosol"
      "to_real (rc p) = Some cirrus" "to_real (rr p) = Some red"
      "to_real (rg p) = Some green" "to_real (r4 p) = Some red4"
      "to_real (rs p) = Some swir1"
    by blast
  let ?score = "\<lambda>p. score_px (rb p) (ra p) (rc p) (rr p) (rg p) (r4 p) (rs p)"
  have "bands (addBands img ''cloudScore'' ?score) = bands img @ [(''cloudScore'', ?score)]"
    by (rule bands_addBands)
  moreover have "?score p = Num ?m"
    by (rule score_px_Some [OF v assms(8,9)])
  moreover have "?m \<le> 1" by simp
  moreover have "0 \<le> ?m \<longleftrightarrow>
      (\<forall>i\<in>set (spec_indicators blue aerosol cirrus red green red4 swir1). 0 \<le> i)"
    by (rule spec_minAggregate_nonneg [OF spec_indicators_nonempty])
  ultimately show ?thesis using run by blast
qed

text \<open>
  On the dark surface the blue indicator is (0 - 0.1) / (0.5 - 0.1), and the combined
  score is -1/4, outside [0,1].
\<close>

theorem cloudScore_range_counterexample:
  "sentinelCloudScore dark_image =
     Inr (addBands dark_image ''cloudScore'' (constant_img (Num (- (1/4)))))
   \<and> \<not> in_unit_interval (constant_img (Num (- (1/4))) (0, 0))"
  using dark_run by (simp add: in_unit_interval_def constant_img_def)

text \<open>
  On the bright surface every indicator is non-negative and the score is in [0,1].
\<close>

theorem cloudScore_range_witness:
  "\<exists>out score x. sentinelCloudScore bright_image = Inr out
     \<and> bands out = bands bright_image @ [(''cloudScore'', score)]
     \<and> score (0, 0) = Num x \<and> 0 \<le> x \<and> x \<le> 1"
proof -
  have h: "band_at bright_image ''blue'' (0, 0) = Some 0.6"
    "band_at bright_image ''aerosol'' (0, 0) = Some 0.4"
    "band_at bright_image ''cirrus'' (0, 0) = Some 0"
    "band_at bright_image ''red'' (0, 0) = Some 0.6"
    "band_at bright_image ''green'' (0, 0) = Some 0.6"
    "band_at bright_image ''red4'' (0, 0) = Some 0.6"
    "band_at bright_image ''swir1'' (0, 0) = Some 0.2"
    unfolding bright_image_def by (rule uniform_band_at)+
  have d: "(0.6::real) + 0.2 \<noteq> 0" by simp
  have pos: "\<forall>i\<in>set (spec_indicators 0.6 0.4 0 0.6 0.6 0.6 0.2). (0::real) \<le> i"
    by (simp add: spec_indicators_def spec_rescale_def spec_normalizedDifference_def)
  from cloudScore_range [OF h d d] pos show ?thesis by blast
qed

text \<open>
  C3, as the code has it. For a raster with all required bands and a pixel whose band values
  are numbers with non-zero normalized-difference denominators, the combined score is the
  minimum of the constant 1 and the six rescaled indicators of the spec: the aggregation
  starts from the constant raster 1, which takes part in the minimum.
\<close>

theorem cloudScore_min_of_one_and_indicators:
  assumes "band_at img ''blue'' p = Some blue" "band_at img ''aerosol'' p = Some aerosol"
    "band_at img ''cirrus'' p = Some cirrus" "band_at img ''red'' p = Some red"
    "band_at img ''green'' p = Some green" "band_at img ''red4'' p = Some red4"
    "band_at img ''swir1'' p = Some swir1"
    "red4 + swir1 \<noteq> 0" "green + swir1 \<noteq> 0"
  shows "\<exists>out score. sentinelCloudScore img = Inr out
           \<and> bands out = bands img @ [(''cloudScore'', score)]
           \<and> score p =
               Num (min 1 (spec_minAggregate
                             (spec_indicators blue aerosol cirrus red green red4 swir1)))"
proof -
  from cloudScore_run_at [OF assms(1-7)] obtain rb ra rc rr rg r4 rs where
    run: "sentinelCloudScore img =
        Inr (addBands img ''cloudScore''
              (\<lambda>p. score_px (rb p) (ra p) (rc p) (rr p) (rg p) (r4 p) (rs p)))"
    and v: "to_real (rb p) = Some blue" "to_real (ra p) = Some aerosol"
      "to_real (rc p) = Some cirrus" "to_real (rr p) = Some red"
      "to_real (rg p) = Some green" "to_real (r4 p) = Some red4"
      "to_real (rs p) = Some swir1"
    by blast
  let ?score = "\<lambda>p. score_px (rb p) (ra p) (rc p) (rr p) (rg p) (r4 p) (rs p)"
  have "bands (addBands img ''cloudScore'' ?score) = bands img @ [(''cloudScore'', ?score)]"
    by (rule bands_addBands)
  moreover have "?score p =
      Num (min 1 (spec_minAggregate (spec_indicators blue aerosol cirrus red green red4 swir1)))"
    by (rule score_px_Some [OF v assms(8,9)])
  ultimately show ?thesis using run by blast
qed

text \<open>
  On the bright surface the minimum of the six indicators is 5/4, and the combined score
  is 1.
\<close>

theorem cloudScore_min_counterexample:
  "sentinelCloudScore bright_image =
     Inr (addBands bright_image ''cloudScore'' (constant_img (Num 1)))
   \<and> bright_image = uniform_image 0.6 0.4 0 0.6 0.6 0.6 0.2
   \<and> spec_minAggregate (spec_indicators 0.6 0.4 0 0.6 0.6 0.6 0.2) = 5/4"
  using bright_run bright_indicators bright_image_def by blast

text \<open>
  On the dark surface the minimum of 1 and the six indicators is -1/4.
\<close>

theorem cloudScore_min_of_one_and_indicators_witness:
  "\<exists>out score. sentinelCloudScore dark_image = Inr out
     \<and> bands out = bands dark_image @ [(''cloudScore'', score)]
     \<and> score (0, 0) = Num (- (1/4))"
proof -
  have h: "band_at dark_image ''blue'' (0, 0) = Some 0"
    "band_at dark_image ''aerosol'' (0, 0) = Some 0.1"
    "band_at dark_image ''cirrus'' (0, 0) = Some 0.05"
    "band_at dark_image ''red'' (0, 0) = Some 0.1"
    "band_at dark_image ''green'' (0, 0) = Some 0.1"
    "band_at dark_image ''red4'' (0, 0) = Some 0.2"
    "band_at dark_image ''swir1'' (0, 0) = Some 0.1"
    unfolding dark_image_def by (rule uniform_band_at)+
  have d1: "(0.2::real) + 0.1 \<noteq> 0" and d2: "(0.1::real) + 0.1 \<noteq> 0" by simp_all
  have m: "min 1 (spec_minAggregate (spec_indicators 0 0.1 0.05 0.1 0.1 0.2 0.1)) = - (1/4)"
    unfolding dark_indicators by simp
  from cloudScore_min_of_one_and_indicators [OF h d1 d2] show ?thesis
    unfolding m by blast
qed

text \<open>
  C7. The snow-exclusion indicator, \<open>rescale\<close> of the normalized difference of green and
  swir1 over [0.8, 0.6], is (NDSI - 0.8) / (0.6 - 0.8) at every pixel where NDSI is a number,
  and of two such pixels the one with the strictly higher NDSI has the strictly lower
  indicator.
\<close>

theorem snow_indicator_antitone:
  assumes "normalizedDifference img ''green'' ''swir1'' = Inr ndsi"
    and "ndsi p = Num x" and "ndsi q = Num y"
  shows "\<exists>ind. ind_ndsi img = Inr ind
           \<and> ind p = Num ((x - 0.8) / (0.6 - 0.8))
           \<and> ind q = Num ((y - 0.8) / (0.6 - 0.8))
           \<and> (x < y \<longleftrightarrow> (y - 0.8) / (0.6 - 0.8) < (x - 0.8) / (0.6 - 0.8))"
proof -
  let ?ind = "\<lambda>p. rescale_px (ndsi p) 0.8 0.6"
  have "ind_ndsi img = Inr ?ind"
    by (simp add: ind_ndsi_def assms(1) rescale_pair)
  moreover have "?ind p = Num ((x - 0.8) / (0.6 - 0.8))"
    by (simp add: assms(2) rescale_px_Some spec_rescale_def)
  moreover have "?ind q = Num ((y - 0.8) / (0.6 - 0.8))"
    by (simp add: assms(3) rescale_px_Some spec_rescale_def)
  moreover have "x < y \<longleftrightarrow> (y - 0.8) / (0.6 - 0.8) < (x - 0.8) / (0.6 - 0.8)"
    by (simp add: field_simps)
  ultimately show ?thesis by blast
qed

text \<open>
  Two pixels with NDSI 1/2 and 4/5: the indicator is 3/2 and 0.
\<close>

theorem snow_indicator_antitone_witness:
  "\<exists>ind. ind_ndsi snow_image = Inr ind \<and> ind (0, 0) = Num (3/2) \<and> ind (1, 0) = Num 0"
proof -
  let ?nd = "\<lambda>p. nd_px ((\<lambda>(x, y). if x = 0 then Num 0.3 else Num 0.9) p)
                       (constant_img (Num 0.1) p)"
  have p: "?nd (0, 0) = Num (1/2)" and q: "?nd (1, 0) = Num (4/5)"
    by (simp_all add: nd_px_def constant_img_def vdiv_def vsub_def vadd_def arith2_def)
  from snow_indicator_antitone [OF snow_nd p q] show ?thesis
    by simp
qed

text \<open>
  C10, as the code has it. Whenever the scorer returns, the combined score at every pixel is
  the not-a-number sentinel or a number at most 1; it is a number at most 1 wherever the
  band values are numbers and both normalized-difference denominators are non-zero; and
  there is an input whose score is negative, so nothing enforces the lower bound 0.
\<close>

theorem cloudScore_sentinel_or_at_most_one:
  "(\<forall>img out. sentinelCloudScore img = Inr out \<longrightarrow>
      (\<exists>score. bands out = bands img @ [(''cloudScore'', score)]
         \<and> (\<forall>p. score p = NaN \<or> (\<exists>x. score p = Num x \<and> x \<le> 1))))
   \<and> (\<forall>img p blue aerosol cirrus red green red4 swir1.
        band_at img ''blue'' p = Some blue \<longrightarrow> band_at img ''aerosol'' p = Some aerosol \<longrightarrow>
        band_at img ''cirrus'' p = Some cirrus \<longrightarrow> band_at img ''red'' p = Some red \<longrightarrow>
        band_at img ''green'' p = Some green \<longrightarrow> band_at img ''red4'' p = Some red4 \<longrightarrow>
        band_at img ''swir1'' p = Some swir1 \<longrightarrow>
        red4 + swir1 \<noteq> 0 \<longrightarrow> green + swir1 \<noteq> 0 \<longrightarrow>
        (\<exists>out score x. sentinelCloudScore img = Inr out
           \<and> bands out = bands img @ [(''cloudScore'', score)]
           \<and> score p = Num x \<and> x \<le> 1))
   \<and> (\<exists>img score p x. sentinelCloudScore img = Inr (addBands img ''cloudScore'' score)
         \<and> score p = Num x \<and> x < 0)"
proof (intro conjI allI impI)
  fix img out
  assume run: "sentinelCloudScore img = Inr out"
  from sentinelCloudScore_bands [OF run] obtain rb ra rc rr rg r4 rs where sel:
    "select img ''blue'' = Inr rb" "select img ''aerosol'' = Inr ra"
    "select img ''cirrus'' = Inr rc" "select img ''red'' = Inr rr"
    "select img ''green'' = Inr rg" "select img ''red4'' = Inr r4"
    "select img ''swir1'' = Inr rs"
    by blast
  let ?score = "\<lambda>p. score_px (rb p) (ra p) (rc p) (rr p) (rg p) (r4 p) (rs p)"
  from run sentinelCloudScore_run [OF sel] have "out = addBands img ''cloudScore'' ?score"
    by simp
  then have "bands out = bands img @ [(''cloudScore'', ?score)]"
    by (simp add: addBands_def)
  moreover have "\<forall>p. ?score p = NaN \<or> (\<exists>x. ?score p = Num x \<and> x \<le> 1)"
    by (simp add: score_px_at_most_one)
  ultimately show "\<exists>score. bands out = bands img @ [(''cloudScore'', score)]
      \<and> (\<forall>p. score p = NaN \<or> (\<exists>x. score p = Num x \<and> x \<le> 1))"
    by blast
next
  fix img p blue aerosol cirrus red green red4 swir1
  assume b: "band_at img ''blue'' p = Some blue" "band_at img ''aerosol'' p = Some aerosol"
    "band_at img ''cirrus'' p = Some cirrus" "band_at img ''red'' p = Some red"
    "band_at img ''green'' p = Some green" "band_at img ''red4'' p = Some red4"
    "band_at img ''swir1'' p = Some swir1"
    and d: "red4 + swir1 \<noteq> 0" "green + swir1 \<noteq> 0"
  let ?m = "min 1 (spec_minAggregate (spec_indicators blue aerosol cirrus red green red4 swir1))"
  from cloudScore_run_at [OF b] obtain rb ra rc rr rg r4 rs where
    run: "sentinelCloudScore img =
        Inr (addBands img ''cloudScore''
              (\<lambda>p. score_px (rb p) (ra p) (rc p) (rr p) (rg p) (r4 p) (rs p)))"
    and v: "to_real (rb p) = Some blue" "to_real (ra p) = Some aerosol"
      "to_real (rc p) = Some cirrus" "to_real (rr p) = Some red"
      "to_real (rg p) = Some green" "to_real (r4 p) = Some red4"
      "to_real (rs p) = Some swir1"
    by blast
  let ?score = "\<lambda>p. score_px (rb p) (ra p) (rc p) (rr p) (rg p) (r4 p) (rs p)"
  have "bands (addBands img ''cloudScore'' ?score) = bands img @ [(''cloudScore'', ?score)]"
    by (rule bands_addBands)
  moreover have "?score p = Num ?m"
    by (rule score_px_Some [OF v d])
  moreover have "?m \<le> 1" by simp
  ultimately show "\<exists>out score x. sentinelCloudScore img = Inr out
      \<and> bands out = bands img @ [(''cloudScore'', score)] \<and> score p = Num x \<and> x \<le> 1"
    using run by blast
next
  have "constant_img (Num (- (1/4))) (0, 0) = Num (- (1/4))"
    by (simp add: constant_img_def)
  moreover have "- (1/4) < (0::real)" by simp
  ultimately show "\<exists>img score p x.
      sentinelCloudScore img = Inr (addBands img ''cloudScore'' score) \<and> score p = Num x \<and> x < 0"
    using dark_run by blast
qed

text \<open>
  On the edge pixel the score is the sentinel, and the comparison of the sentinel with 1
  fails.
\<close>

theorem cloudScore_sentinel_counterexample:
  "sentinelCloudScore edge_image =
     Inr (addBands edge_image ''cloudScore'' (constant_img NaN))
   \<and> \<not> le_one (constant_img NaN (0, 0))"
  using edge_run by (simp add: le_one_def constant_img_def)

text \<open>
  The first part on the edge pixel, the second on the bright surface.
\<close>

theorem cloudScore_sentinel_or_at_most_one_witness:
  "(\<exists>out score. sentinelCloudScore edge_image = Inr out
     \<and> bands out = bands edge_image @ [(''cloudScore'', score)]
     \<and> (\<forall>p. score p = NaN \<or> (\<exists>x. score p = Num x \<and> x \<le> 1)))
   \<and> (\<exists>out score x. sentinelCloudScore bright_image = Inr out
     \<and> bands out = bands bright_image @ [(''cloudScore'', score)]
     \<and> score (0, 0) = Num x \<and> x \<le> 1)"
proof -
  have h: "band_at bright_image ''blue'' (0, 0) = Some 0.6"
    "band_at bright_image ''aerosol'' (0, 0) = Some 0.4"
    "band_at bright_image ''cirrus'' (0, 0) = Some 0"
    "band_at bright_image ''red'' (0, 0) = Some 0.6"
    "band_at bright_image ''green'' (0, 0) = Some 0.6"
    "band_at bright_image ''red4'' (0, 0) = Some 0.6"
    "band_at bright_image ''swir1'' (0, 0) = Some 0.2"
    unfolding bright_image_def by (rule uniform_band_at)+
  have d: "(0.6::real) + 0.2 \<noteq> 0" by simp
  from cloudScore_sentinel_or_at_most_one edge_run
  have 1: "\<exists>out score. sentinelCloudScore edge_image = Inr out
     \<and> bands out = bands edge_image @ [(''cloudScore'', score)]
     \<and> (\<forall>p. score p = NaN \<or> (\<exists>x. score p = Num x \<and> x \<le> 1))"
    by blast
  from cloudScore_sentinel_or_at_most_one h d
  have 2: "\<exists>out score x. sentinelCloudScore bright_image = Inr out
     \<and> bands out = bands bright_image @ [(''cloudScore'', score)]
     \<and> score (0, 0) = Num x \<and> x \<le> 1"
    by blast
  from 1 2 show ?thesis by blast
qed

subsection \<open>rescale\<close>

text \<open>
  C9, as the code has it. \<open>rescale\<close> checks nothing about its two thresholds: for every
  raster and every low and high, equal or not, it returns the raster
  \<^verbatim>\<open>img.subtract(low).divide(high - low)\<close>, and it never returns the error
  InvalidParameter. Where high differs from low and the pixel is a number \<open>x\<close>, the
  result is (x - low) / (high - low).
\<close>

theorem rescale_unchecked:
  "rescale r [low, high] = Inr (divide_r (subtract r low) (high - low))
   \<and> rescale r thresholds \<noteq> Inl InvalidParameter
   \<and> (high \<noteq> low \<longrightarrow> to_real (r p) = Some x \<longrightarrow>
        divide_r (subtract r low) (high - low) p = Num ((x - low) / (high - low)))"
proof (intro conjI impI)
  show "rescale r [low, high] = Inr (divide_r (subtract r low) (high - low))"
    by (simp add: rescale_def nth_py_def)
  show "rescale r thresholds \<noteq> Inl InvalidParameter"
    by (simp add: rescale_def nth_py_def bindE_def)
  show "divide_r (subtract r low) (high - low) p = Num ((x - low) / (high - low))"
    if "high \<noteq> low" "to_real (r p) = Some x"
    using that by (simp add: divide_r_def subtract_def vdiv_def vsub_def arith2_Some)
qed

text \<open>
  With low = high = 0.5 the call returns a raster, each pixel divided by zero.
\<close>

theorem rescale_unchecked_counterexample:
  "rescale flat_raster [0.5, 0.5] = Inr (divide_r (subtract flat_raster 0.5) 0)
   \<and> rescale flat_raster [0.5, 0.5] \<noteq> Inl InvalidParameter"
  by (simp add: rescale_def nth_py_def)

text \<open>
  With low = 0.1 and high = 0.5 on a pixel of value 1.
\<close>

theorem rescale_unchecked_witness:
  "(0.5::real) \<noteq> 0.1 \<and> to_real (flat_raster (0, 0)) = Some 1
   \<and> rescale flat_raster [0.1, 0.5] = Inr (divide_r (subtract flat_raster 0.1) (0.5 - 0.1))
   \<and> divide_r (subtract flat_raster 0.1) (0.5 - 0.1) (0, 0) = Num ((1 - 0.1) / (0.5 - 0.1))"
  using rescale_unchecked [of flat_raster "0.1" "0.5" "[]" "(0, 0)" 1]
  by (simp add: flat_raster_def constant_img_def)

subsection \<open>The shadow projector\<close>



text \<open>
  C5. \<open>shadowMask\<close> computes the darkness test on the global \<^verbatim>\<open>toa\<close> and not on
  its argument: two calls with the same image and the same band name, under two values of
  the global, give different shadows bands at pixel (0, 100).
\<close>

theorem shadowMask_reads_global:
  "\<exists>s1 s2. shadowMask toa_dark cloudy_image ''cloudScore'' =
              Inr (addBands cloudy_image ''shadows'' s1)
     \<and> shadowMask toa_light cloudy_image ''cloudScore'' =
              Inr (addBands cloudy_image ''shadows'' s2)
     \<and> s1 (0, 100) = IntV 1 \<and> s2 (0, 100) = IntV 0"
proof -
  let ?sel = "\<lambda>p::pixel. if p = (0, 0) then Num 1 else Num 0"
  let ?s1 = "shadows_of ?sel 0 45 (projection_scale cloudy_image) (constant_img (Num (1/2)))"
  let ?s2 = "shadows_of ?sel 0 45 (projection_scale cloudy_image) (constant_img (Num 0))"
  have sc: "projection_scale cloudy_image = 10"
    by (simp add: cloudy_image_def)
  have 1: "shadowMask toa_dark cloudy_image ''cloudScore'' =
      Inr (addBands cloudy_image ''shadows'' ?s1)"
    by (rule shadowMask_run [OF cloudy_select cloudy_get toa_dark_nd])
  have 2: "shadowMask toa_light cloudy_image ''cloudScore'' =
      Inr (addBands cloudy_image ''shadows'' ?s2)"
    by (rule shadowMask_run [OF cloudy_select cloudy_get toa_light_nd])
  have 3: "?s1 (0, 100) = IntV 1"
    unfolding shadows_of_def sc And_r_def cloudy_potential
    by (simp add: Not_r_def gt_def cloudScoreThreshold_def vgt_def vand_def vnot_def
        bool_val_def constant_img_def)
  have 4: "?s2 (0, 100) = IntV 0"
    unfolding shadows_of_def sc And_r_def cloudy_potential
    by (simp add: Not_r_def gt_def cloudScoreThreshold_def vgt_def vand_def vnot_def
        bool_val_def constant_img_def)
  from 1 2 3 4 show ?thesis by blast
qed

text \<open>
  C6. Whenever \<open>shadowMask\<close> returns, no pixel is true both in the shadows band and in
  the binarized cloud mask (the selected band thresholded at 0.5) it was computed from.
\<close>

theorem shadow_excludes_cloud:
  assumes "shadowMask toa img cloudMaskType = Inr out"
    and "select img cloudMaskType = Inr sel"
  shows "\<exists>shadows. bands out = bands img @ [(''shadows'', shadows)]
           \<and> (\<forall>p. \<not> (truthy (shadows p) \<and> truthy (gt sel cloudScoreThreshold p)))"
proof -
  from shadowMask_cases [OF assms(1)] assms(2) obtain az zen nd where
    out: "out = addBands img ''shadows'' (shadows_of sel az zen (projection_scale img) nd)"
    by auto
  have "bands out =
      bands img @ [(''shadows'', shadows_of sel az zen (projection_scale img) nd)]"
    by (simp add: out addBands_def)
  then show ?thesis using shadows_of_not_cloud by blast
qed

text \<open>
  The cloud pixel at the origin is not a shadow pixel.
\<close>

theorem shadow_excludes_cloud_witness:
  "\<exists>out shadows. shadowMask toa_dark cloudy_image ''cloudScore'' = Inr out
     \<and> bands out = bands cloudy_image @ [(''shadows'', shadows)]
     \<and> \<not> (truthy (shadows (0, 0))
            \<and> truthy (gt (\<lambda>p. if p = (0, 0) then Num 1 else Num 0) cloudScoreThreshold (0, 0)))
     \<and> truthy (gt (\<lambda>p. if p = (0, 0) then Num 1 else Num 0) cloudScoreThreshold (0, 0))"
proof -
  have "truthy (gt (\<lambda>p. if p = (0, 0) then Num 1 else Num 0) cloudScoreThreshold (0, 0))"
    by (simp add: gt_def vgt_def cloudScoreThreshold_def)
  with shadow_excludes_cloud [OF cloudy_run cloudy_select] cloudy_run show ?thesis
    by blast
qed

subsection \<open>Zero denominators\<close>

text \<open>
  C8. At a pixel where the two bands of a normalized difference are numbers whose sum is
  zero, \<open>normalizedDifference\<close> returns the not-a-number sentinel and no error, and every
  threshold test on it is false. When the two bands are those of the moisture or the snow
  indicator, the combined cloud score at that pixel is the sentinel and every test
  score > t is false (not cloud). When they are green and swir2 of the raster the darkness
  test reads, the shadows band is 0 at that pixel (not shadow).
\<close>

theorem zero_denominator_fails_tests:
  assumes "band_at img a p = Some x" and "band_at img b p = Some y" and "x + y = 0"
  shows "(\<exists>nd. normalizedDifference img a b = Inr nd \<and> nd p = NaN
              \<and> (\<forall>t. gt nd t p = IntV 0))
     \<and> ((a = ''red4'' \<or> a = ''green'') \<and> b = ''swir1'' \<longrightarrow>
          sentinelCloudScore img = Inr out \<longrightarrow>
          (\<exists>score. bands out = bands img @ [(''cloudScore'', score)] \<and> score p = NaN
              \<and> (\<forall>t. gt score t p = IntV 0)))
     \<and> (a = ''green'' \<and> b = ''swir2'' \<longrightarrow>
          shadowMask img img' cloudMaskType = Inr out' \<longrightarrow>
          (\<exists>shadows. bands out' = bands img' @ [(''shadows'', shadows)]
              \<and> shadows p = IntV 0))"
proof (intro conjI impI)
  from assms(1) obtain ra where ra: "select img a = Inr ra" "to_real (ra p) = Some x"
    using band_at_Some by blast
  from assms(2) obtain rb where rb: "select img b = Inr rb" "to_real (rb p) = Some y"
    using band_at_Some by blast
  let ?nd = "\<lambda>p. nd_px (ra p) (rb p)"
  have nd: "normalizedDifference img a b = Inr ?nd"
    by (rule normalizedDifference_Inr [OF ra(1) rb(1)])
  have nan: "?nd p = NaN"
    by (rule nd_px_zero [OF ra(2) rb(2) assms(3)])
  have fails: "\<forall>t. gt ?nd t p = IntV 0"
    using nan by (simp add: gt_def vgt_def)
  from nd nan fails show "\<exists>nd. normalizedDifference img a b = Inr nd \<and> nd p = NaN
      \<and> (\<forall>t. gt nd t p = IntV 0)"
    by (intro exI [of _ ?nd] conjI)
  show "\<exists>score. bands out = bands img @ [(''cloudScore'', score)] \<and> score p = NaN
      \<and> (\<forall>t. gt score t p = IntV 0)"
    if ab: "(a = ''red4'' \<or> a = ''green'') \<and> b = ''swir1''"
      and run: "sentinelCloudScore img = Inr out"
  proof -
    from sentinelCloudScore_bands [OF run] obtain sb sa sc sr sg s4 ss where sel:
      "select img ''blue'' = Inr sb" "select img ''aerosol'' = Inr sa"
      "select img ''cirrus'' = Inr sc" "select img ''red'' = Inr sr"
      "select img ''green'' = Inr sg" "select img ''red4'' = Inr s4"
      "select img ''swir1'' = Inr ss"
      by blast
    let ?score = "\<lambda>p. score_px (sb p) (sa p) (sc p) (sr p) (sg p) (s4 p) (ss p)"
    from run sentinelCloudScore_run [OF sel] have "out = addBands img ''cloudScore'' ?score"
      by simp
    then have b: "bands out = bands img @ [(''cloudScore'', ?score)]"
      by (simp add: addBands_def)
    from ab have "select img ''swir1'' = Inr rb" using rb(1) by simp
    with sel(7) have "rb = ss" by simp
    with rb(2) have ys: "to_real (ss p) = Some y" by simp
    have snan: "?score p = NaN"
    proof (cases "a = ''red4''")
      case True
      then have "select img ''red4'' = Inr ra" using ra(1) by simp
      with sel(6) have "ra = s4" by simp
      with ra(2) have "to_real (s4 p) = Some x" by simp
      then show ?thesis using ys assms(3) by (rule score_px_ndmi_zero)
    next
      case False
      with ab have "select img ''green'' = Inr ra" using ra(1) by simp
      with sel(5) have "ra = sg" by simp
      with ra(2) have "to_real (sg p) = Some x" by simp
      then show ?thesis using ys assms(3) by (rule score_px_ndsi_zero)
    qed
    then have "\<forall>t. gt ?score t p = IntV 0"
      by (simp add: gt_def vgt_def)
    with b snan show ?thesis
      by (intro exI [of _ ?score] conjI)
  qed
  show "\<exists>shadows. bands out' = bands img' @ [(''shadows'', shadows)] \<and> shadows p = IntV 0"
    if ab: "a = ''green'' \<and> b = ''swir2''"
      and run: "shadowMask img img' cloudMaskType = Inr out'"
  proof -
    from nd ab have nd': "normalizedDifference img ''green'' ''swir2'' = Inr ?nd"
      by simp
    from shadowMask_cases [OF run] obtain sel az zen nd2 where
      "normalizedDifference img ''green'' ''swir2'' = Inr nd2"
      and out2: "out' = addBands img' ''shadows'' (shadows_of sel az zen (projection_scale img') nd2)"
      by blast
    with nd' have
      out: "out' = addBands img' ''shadows'' (shadows_of sel az zen (projection_scale img') ?nd)"
      by simp
    have "bands out' =
        bands img' @ [(''shadows'', shadows_of sel az zen (projection_scale img') ?nd)]"
      by (simp add: out addBands_def)
    moreover have "shadows_of sel az zen (projection_scale img') ?nd p = IntV 0"
      using nan by (simp add: shadows_of_dark_NaN)
    ultimately show ?thesis
      by (intro exI [of _ "shadows_of sel az zen (projection_scale img') ?nd"] conjI)
  qed
qed

text \<open>
  An edge pixel with red4 = swir1 = 0, and a darkness raster with green = swir2 = 0.
\<close>

theorem zero_denominator_fails_tests_witness:
  "(\<exists>nd. normalizedDifference edge_image ''red4'' ''swir1'' = Inr nd \<and> nd (0, 0) = NaN
          \<and> gt nd 0.5 (0, 0) = IntV 0)
   \<and> (\<exists>out score. sentinelCloudScore edge_image = Inr out
          \<and> bands out = bands edge_image @ [(''cloudScore'', score)]
          \<and> score (0, 0) = NaN \<and> gt score 0.5 (0, 0) = IntV 0)
   \<and> (\<exists>out shadows. shadowMask toa_zero cloudy_image ''cloudScore'' = Inr out
          \<and> bands out = bands cloudy_image @ [(''shadows'', shadows)]
          \<and> shadows (0, 100) = IntV 0)"
proof -
  have h: "band_at edge_image ''red4'' (0, 0) = Some 0"
    "band_at edge_image ''swir1'' (0, 0) = Some 0"
    unfolding edge_image_def by (rule uniform_band_at)+
  have z: "(0::real) + 0 = 0" by simp
  obtain out where run: "sentinelCloudScore edge_image = Inr out"
    unfolding edge_image_def using sentinelCloudScore_run [OF uniform_select] by blast
  have g: "band_at toa_zero ''green'' (0, 100) = Some 0"
    "band_at toa_zero ''swir2'' (0, 100) = Some 0"
    by (simp_all add: band_at_def select_def toa_zero_def constant_img_def)
  have "normalizedDifference toa_zero ''green'' ''swir2'' =
      Inr (\<lambda>p. nd_px (constant_img (Num 0) p) (constant_img (Num 0) p))"
    by (rule normalizedDifference_Inr) (simp_all add: select_def toa_zero_def)
  from shadowMask_run [OF cloudy_select cloudy_get this]
  obtain out' where run': "shadowMask toa_zero cloudy_image ''cloudScore'' = Inr out'"
    by blast
  from zero_denominator_fails_tests [OF h z, of out] run
  have 1: "(\<exists>nd. normalizedDifference edge_image ''red4'' ''swir1'' = Inr nd \<and> nd (0, 0) = NaN
          \<and> gt nd 0.5 (0, 0) = IntV 0)"
    and 2: "(\<exists>out score. sentinelCloudScore edge_image = Inr out
          \<and> bands out = bands edge_image @ [(''cloudScore'', score)]
          \<and> score (0, 0) = NaN \<and> gt score 0.5 (0, 0) = IntV 0)"
    by blast+
  from zero_denominator_fails_tests [OF g z, of _ cloudy_image "''cloudScore''" out'] run'
  have 3: "(\<exists>out shadows. shadowMask toa_zero cloudy_image ''cloudScore'' = Inr out
          \<and> bands out = bands cloudy_image @ [(''shadows'', shadows)]
          \<and> shadows (0, 100) = IntV 0)"
    by blast
  from 1 2 3 show ?thesis by blast
qed

end
